theory Spec2Isabelle
  imports Main "HOL-Library.Char_ord" "HOL-Library.List_Lexorder"
begin

section \<open>Python values used by converter.py\<close>

text \<open>
  Exceptions of the Python source are values. \<open>ValueError\<close> carries its message,
  because \<open>parse_quora_date\<close> raises it at three places that differ in the message only.
  \<open>OtherError\<close> stands for a library exception that is neither of the named ones
  (for instance \<open>http.client.HTTPException\<close>).
\<close>

datatype exn =
    ValueError string
  | AttributeError
  | IndexError
  | TypeError
  | NameError string
  | URLError
  | OSError
  | OtherError

text \<open>\<open>s.startswith(p)\<close> and \<open>s.endswith(p)\<close>.\<close>

fun startswith :: "string \<Rightarrow> string \<Rightarrow> bool" where
  "startswith s [] = True"
| "startswith [] (p # ps) = False"
| "startswith (c # cs) (p # ps) = (c = p \<and> startswith cs ps)"

definition endswith :: "string \<Rightarrow> string \<Rightarrow> bool" where
  "endswith s p = startswith (rev s) (rev p)"

text \<open>\<open>sub in s\<close> on two strings: \<open>sub\<close> occurs in \<open>s\<close> as a substring.\<close>

fun contains :: "string \<Rightarrow> string \<Rightarrow> bool" where
  "contains sub [] = (sub = [])"
| "contains sub (c # cs) = (startswith (c # cs) sub \<or> contains sub cs)"

text \<open>
  \<open>s.split()\<close> without arguments: the maximal runs of non-whitespace characters.
  The whitespace characters below are the ASCII ones of \<open>str.isspace\<close>.
\<close>

definition is_space :: "char \<Rightarrow> bool" where
  "is_space c = (c \<in> set [CHR 0x20, CHR 0x09, CHR 0x0A, CHR 0x0B, CHR 0x0C, CHR 0x0D,
                           CHR 0x1C, CHR 0x1D, CHR 0x1E, CHR 0x1F])"

fun split_ws :: "string \<Rightarrow> string \<Rightarrow> string list" where
  "split_ws cur [] = (if cur = [] then [] else [cur])"
| "split_ws cur (c # cs) =
     (if is_space c then (if cur = [] then split_ws [] cs else cur # split_ws [] cs)
      else split_ws (cur @ [c]) cs)"

definition split :: "string \<Rightarrow> string list" where
  "split s = split_ws [] s"

text \<open>
  \<open>xs.index(x)\<close> for an \<open>x\<close> that is in the list; decimal digits, \<open>int(ds)\<close> on a
  string of digits, and \<open>'%d' % n\<close>.
\<close>

definition is_digit :: "char \<Rightarrow> bool" where
  "is_digit c = (c \<in> set ''0123456789'')"

fun index_of :: "'a list \<Rightarrow> 'a \<Rightarrow> nat" where
  "index_of [] x = 0"
| "index_of (y # ys) x = (if y = x then 0 else Suc (index_of ys x))"

definition digit_val :: "char \<Rightarrow> int" where
  "digit_val c = int (index_of ''0123456789'' c)"

definition int_of_digits :: "string \<Rightarrow> int" where
  "int_of_digits ds = foldl (\<lambda>n c. 10 * n + digit_val c) 0 ds"

definition digit_char :: "nat \<Rightarrow> char" where
  "digit_char d = ''0123456789'' ! (d mod 10)"

fun str_nat :: "nat \<Rightarrow> string" where
  "str_nat n = (if n < 10 then [digit_char n] else str_nat (n div 10) @ [digit_char (n mod 10)])"

declare str_nat.simps [simp del]

definition str_int :: "int \<Rightarrow> string" where
  "str_int i = (if i < 0 then CHR ''-'' # str_nat (nat (- i)) else str_nat (nat i))"

text \<open>\<open>xs[i]\<close> on a Python list: negative indices count from the end, others raise.\<close>

definition py_index :: "'a list \<Rightarrow> int \<Rightarrow> exn + 'a" where
  "py_index xs i =
     (if 0 \<le> i \<and> i < int (length xs) then Inr (xs ! nat i)
      else if i < 0 \<and> - int (length xs) \<le> i then Inr (xs ! nat (int (length xs) + i))
      else Inl IndexError)"

section \<open>Calendar: \<open>time.gmtime\<close> and \<open>time.strptime\<close>\<close>

text \<open>
  The fields of \<open>time.struct_time\<close> that the source reads. \<open>tm_mon\<close> is in 1..12,
  \<open>tm_wday\<close> is in 0..6 with Monday 0.
\<close>

record struct_time =
  tm_year :: int
  tm_mon :: int
  tm_mday :: int
  tm_wday :: int

text \<open>
  The proleptic Gregorian date of the day \<open>z\<close> days after 1970-01-01, by the usual
  era / day-of-era computation on years that start in March.
\<close>

definition civil_from_days :: "int \<Rightarrow> int \<times> int \<times> int" where
  "civil_from_days z0 =
     (let z = z0 + 719468;
          era = z div 146097;
          doe = z - era * 146097;
          yoe = (doe - doe div 1460 + doe div 36524 - doe div 146096) div 365;
          doy = doe - (365 * yoe + yoe div 4 - yoe div 100);
          mp = (5 * doy + 2) div 153;
          d = doy - (153 * mp + 2) div 5 + 1;
          m = (if mp < 10 then mp + 3 else mp - 9);
          y = yoe + era * 400 + (if m \<le> 2 then 1 else 0)
      in (y, m, d))"

definition days_from_civil :: "int \<Rightarrow> int \<Rightarrow> int \<Rightarrow> int" where
  "days_from_civil y0 m d =
     (let y = (if m \<le> 2 then y0 - 1 else y0);
          era = y div 400;
          yoe = y - era * 400;
          doy = (153 * (if m > 2 then m - 3 else m + 9) + 2) div 5 + d - 1;
          doe = yoe * 365 + yoe div 4 - yoe div 100 + doy
      in era * 146097 + doe - 719468)"

text \<open>
  \<open>time.gmtime(secs)\<close> for an integer number of seconds since the epoch (a float is
  floored first). 1970-01-01 was a Thursday, weekday 3. The range limits of the
  platform's \<open>time_t\<close> are not modelled.
\<close>

definition gmtime :: "int \<Rightarrow> struct_time" where
  "gmtime secs =
     (let days = secs div 86400;
          ymd = civil_from_days days
      in \<lparr>tm_year = fst ymd, tm_mon = fst (snd ymd), tm_mday = snd (snd ymd),
          tm_wday = (days + 3) mod 7\<rparr>)"

definition days_of_week :: "string list" where
  "days_of_week = [''Mon'', ''Tue'', ''Wed'', ''Thu'', ''Fri'', ''Sat'', ''Sun'']"

definition months_of_year :: "string list" where
  "months_of_year = [''Jan'', ''Feb'', ''Mar'', ''Apr'', ''May'', ''Jun'',
                     ''Jul'', ''Aug'', ''Sep'', ''Oct'', ''Nov'', ''Dec'']"

definition is_leap :: "int \<Rightarrow> bool" where
  "is_leap y = (y mod 4 = 0 \<and> (y mod 100 \<noteq> 0 \<or> y mod 400 = 0))"

definition days_in_month :: "int \<Rightarrow> int \<Rightarrow> int" where
  "days_in_month y m =
     (if m = 2 then (if is_leap y then 29 else 28)
      else if m \<in> set [4, 6, 9, 11] then 30 else 31)"

section \<open>The regular expressions of \<open>parse_quora_date\<close>\<close>

text \<open>
  \<open>$\<close> matches at the end of the string and just before a newline that ends the string.
\<close>

definition at_end :: "string \<Rightarrow> bool" where
  "at_end r = (r = [] \<or> r = [CHR 0x0A])"

text \<open>\<open>re.match('just now$', s)\<close>\<close>

definition m_just_now :: "string \<Rightarrow> bool" where
  "m_just_now s = (startswith s ''just now'' \<and> at_end (drop 8 s))"

text \<open>
  \<open>re.match('(\d+)' + suf + '$', s)\<close> for a literal \<open>suf\<close> that starts with a non-digit:
  the group is the maximal run of digits, since a shorter run is followed by a digit.
  Only ASCII digits are modelled.
\<close>

definition m_num :: "string \<Rightarrow> string \<Rightarrow> string option" where
  "m_num suf s =
     (let ds = takeWhile is_digit s; r = dropWhile is_digit s
      in if ds \<noteq> [] \<and> startswith r suf \<and> at_end (drop (length suf) r) then Some ds else None)"

text \<open>\<open>re.match('(\d+)[ap]m$', s)\<close>\<close>

definition m_clock :: "string \<Rightarrow> string option" where
  "m_clock s = (case m_num ''am'' s of Some ds \<Rightarrow> Some ds | None \<Rightarrow> m_num ''pm'' s)"

text \<open>\<open>re.match('(Mon|...|Sun)$', s)\<close>: the alternatives are tried in order.\<close>

definition m_weekday :: "string \<Rightarrow> string option" where
  "m_weekday s = find (\<lambda>n. startswith s n \<and> at_end (drop (length n) s)) days_of_week"

text \<open>\<open>re.match('(Jan|...|Dec) (\d+)$', s)\<close>: month name and the digits.\<close>

definition m_month_day :: "string \<Rightarrow> (string \<times> string) option" where
  "m_month_day s =
     (case find (\<lambda>n. startswith s (n @ '' '') \<and> m_num [] (drop (length n + 1) s) \<noteq> None)
             months_of_year of
        None \<Rightarrow> None
      | Some n \<Rightarrow> (case m_num [] (drop (length n + 1) s) of
                     None \<Rightarrow> None | Some ds \<Rightarrow> Some (n, ds)))"

text \<open>\<open>re.match('(Jan|...|Dec) (\d+), (\d+)$', s)\<close>: month name, day digits, year digits.\<close>

definition m_day_year :: "string \<Rightarrow> (string \<times> string) option" where
  "m_day_year r =
     (let ds = takeWhile is_digit r; r1 = dropWhile is_digit r
      in if ds \<noteq> [] \<and> startswith r1 '', '' then
           (case m_num [] (drop 2 r1) of None \<Rightarrow> None | Some ys \<Rightarrow> Some (ds, ys))
         else None)"

definition m_month_day_year :: "string \<Rightarrow> (string \<times> string \<times> string) option" where
  "m_month_day_year s =
     (case find (\<lambda>n. startswith s (n @ '' '') \<and> m_day_year (drop (length n + 1) s) \<noteq> None)
             months_of_year of
        None \<Rightarrow> None
      | Some n \<Rightarrow> (case m_day_year (drop (length n + 1) s) of
                     None \<Rightarrow> None | Some (ds, ys) \<Rightarrow> Some (n, ds, ys)))"

text \<open>
  \<open>time.strptime(s, '%b %d, %Y')\<close> on a string that \<open>m_month_day_year\<close> has matched to
  \<open>(mon, ds, ys)\<close>, in the C locale: \<open>%d\<close> takes one or two digits that denote 1..31,
  \<open>%Y\<close> exactly four digits, nothing may remain after the year (not even the newline
  that \<open>$\<close> tolerates), and the date must exist.
\<close>

definition strptime_b_d_Y :: "string \<Rightarrow> string \<times> string \<times> string \<Rightarrow> exn + struct_time" where
  "strptime_b_d_Y s mdy =
     (case mdy of (mon, ds, ys) \<Rightarrow>
       (let m = int (index_of months_of_year mon) + 1;
            d = int_of_digits ds;
            y = int_of_digits ys
        in if length ds \<le> 2 \<and> 1 \<le> d \<and> d \<le> 31 \<and> length ys = 4 \<and> \<not> endswith s [CHR 0x0A]
              \<and> 1 \<le> y \<and> d \<le> days_in_month y m
           then Inr \<lparr>tm_year = y, tm_mon = m, tm_mday = d,
                     tm_wday = (days_from_civil y m d + 3) mod 7\<rparr>
           else Inl (ValueError ''strptime'')))"

section \<open>\<open>parse_quora_date\<close>\<close>

text \<open>
  The two backward walks of the source,
  \<^verbatim>\<open>offset = 1
  while offset <= limit:
      tm = time.gmtime(origin - 86400*offset)
      if <tm matches>: break
      offset += 1
  else: raise ValueError('date "%s" is invalid' % date_str)\<close>
  with \<open>limit\<close> 7 for a weekday and 366 for a month and day. \<open>None\<close> is the \<open>else\<close> branch.
\<close>

function walk_back :: "nat \<Rightarrow> (struct_time \<Rightarrow> bool) \<Rightarrow> int \<Rightarrow> nat \<Rightarrow> struct_time option" where
  "walk_back limit hit origin offset =
     (if offset \<le> limit then
        (let tm = gmtime (origin - 86400 * int offset)
         in if hit tm then Some tm else walk_back limit hit origin (offset + 1))
      else None)"
  by pat_completeness auto
termination
  by (relation "measure (\<lambda>(limit, hit, origin, offset). Suc limit - offset)") auto

declare walk_back.simps [simp del]

definition invalid_date :: "string \<Rightarrow> exn" where
  "invalid_date date_str = ValueError (''date '' @ [CHR 0x22] @ date_str @ [CHR 0x22] @ '' is invalid'')"

definition uninterpreted_date :: "string \<Rightarrow> exn" where
  "uninterpreted_date date_str =
     ValueError (''date '' @ [CHR 0x22] @ date_str @ [CHR 0x22] @ '' could not be interpreted'')"

text \<open>The \<open>if\<close> / \<open>elif\<close> chain that computes \<open>tm\<close>.\<close>

definition resolve_tm :: "int \<Rightarrow> string \<Rightarrow> exn + struct_time" where
  "resolve_tm origin date_str =
     (if m_just_now date_str \<or> m_clock date_str \<noteq> None then Inr (gmtime origin)
      else case m_num ''m ago'' date_str of
        Some ds \<Rightarrow> Inr (gmtime (origin - 60 * int_of_digits ds))
      | None \<Rightarrow>
      (case m_num ''h ago'' date_str of
        Some ds \<Rightarrow> Inr (gmtime (origin - 3600 * int_of_digits ds))
      | None \<Rightarrow>
      (case m_weekday date_str of
        Some name \<Rightarrow>
          (let day_of_week = int (index_of days_of_week name)
           in case walk_back 7 (\<lambda>tm. tm_wday tm = day_of_week) origin 1 of
                Some tm \<Rightarrow> Inr tm
              | None \<Rightarrow> Inl (invalid_date date_str))
      | None \<Rightarrow>
      (case m_month_day date_str of
        Some (mon, ds) \<Rightarrow>
          (let month_of_year = int (index_of months_of_year mon) + 1;
               day_of_month = int_of_digits ds
           in case walk_back 366 (\<lambda>tm. tm_mon tm = month_of_year \<and> tm_mday tm = day_of_month)
                     origin 1 of
                Some tm \<Rightarrow> Inr tm
              | None \<Rightarrow> Inl (invalid_date date_str))
      | None \<Rightarrow>
      (case m_month_day_year date_str of
        Some mdy \<Rightarrow> strptime_b_d_Y date_str mdy
      | None \<Rightarrow> Inl (uninterpreted_date date_str))))))"

text \<open>
  The last line of the source:
  \<^verbatim>\<open>return '%s %d, %d' % (months_of_year[tm.tm_mon], tm.tm_mday, tm.tm_year)\<close>
  The list is indexed with \<open>tm_mon\<close> itself, which is 1 for January.
\<close>

definition render_tm :: "struct_time \<Rightarrow> exn + string" where
  "render_tm tm =
     (case py_index months_of_year (tm_mon tm) of
        Inl e \<Rightarrow> Inl e
      | Inr mon \<Rightarrow> Inr (mon @ '' '' @ str_int (tm_mday tm) @ '', '' @ str_int (tm_year tm)))"

definition parse_quora_date :: "int \<Rightarrow> string \<Rightarrow> exn + string" where
  "parse_quora_date origin date_str =
     (case resolve_tm origin date_str of Inl e \<Rightarrow> Inl e | Inr tm \<Rightarrow> render_tm tm)"

section \<open>The DOM\<close>

text \<open>
  The nodes that html5lib's DOM tree builder puts below a document: text, comments and
  elements (\<open>xml.dom.minidom\<close>). An element has a tag name, attributes (key and value,
  in insertion order, keys unique) and child nodes. A node is a value here, so
  \<open>cloneNode(True)\<close> of a node is the node itself, and the tree a node hangs in is given
  by the list that holds it.
\<close>

datatype node =
    Text string
  | Comment string
  | Element string "(string \<times> string) list" "node list"

text \<open>\<open>getAttribute\<close> returns the empty string for a missing attribute.\<close>

definition getAttribute :: "(string \<times> string) list \<Rightarrow> string \<Rightarrow> string" where
  "getAttribute attrs k = (case map_of attrs k of None \<Rightarrow> [] | Some v \<Rightarrow> v)"

fun setAttribute :: "(string \<times> string) list \<Rightarrow> string \<Rightarrow> string \<Rightarrow> (string \<times> string) list" where
  "setAttribute [] k v = [(k, v)]"
| "setAttribute ((k', v') # attrs) k v =
     (if k' = k then (k, v) # attrs else (k', v') # setAttribute attrs k v)"

definition childNodes :: "node \<Rightarrow> node list" where
  "childNodes n = (case n of Element tag attrs kids \<Rightarrow> kids | _ \<Rightarrow> [])"

definition firstChild :: "node \<Rightarrow> node option" where
  "firstChild n = (case childNodes n of [] \<Rightarrow> None | k # ks \<Rightarrow> Some k)"

text \<open>\<open>cloneNode(False)\<close>: an element keeps its attributes and loses its children.\<close>

definition shallow_clone :: "node \<Rightarrow> node" where
  "shallow_clone n = (case n of Element tag attrs kids \<Rightarrow> Element tag attrs [] | _ \<Rightarrow> n)"

text \<open>
  \<^verbatim>\<open>def get_text_content(node):
      text = ''
      for text_node in node.childNodes:
          if text_node.nodeType == Node.TEXT_NODE:
              text += text_node.data
      return text\<close>
\<close>

definition get_text_content :: "node \<Rightarrow> string" where
  "get_text_content n = concat (map (\<lambda>k. case k of Text d \<Rightarrow> d | _ \<Rightarrow> []) (childNodes n))"

text \<open>
  \<open>getElementsByTagName(name)\<close> on a node with the children \<open>ns\<close>: the descendant
  elements with that tag name in document order, the node itself excluded.
\<close>

fun elems_by_tag :: "string \<Rightarrow> node list \<Rightarrow> node list" where
  "elems_by_tag name [] = []"
| "elems_by_tag name (Element tag attrs kids # rest) =
     (if tag = name then [Element tag attrs kids] else [])
       @ elems_by_tag name kids @ elems_by_tag name rest"
| "elems_by_tag name (n # rest) = elems_by_tag name rest"

text \<open>\<open>sep.join(xs)\<close>\<close>

fun join :: "string \<Rightarrow> string list \<Rightarrow> string" where
  "join sep [] = []"
| "join sep [x] = x"
| "join sep (x # y # xs) = x @ sep @ join sep (y # xs)"

section \<open>Configuration, environment and the state of the world\<close>

text \<open>
  The command-line arguments that the conversion reads (the global \<open>args\<close>). The delay
  only sleeps after a fetch and is left out.
\<close>

record args =
  input_dir :: string
  output_dir :: string
  no_download :: bool
  verbose :: bool
  origin_timestamp :: "int option"
  origin_timezone :: "int option"

text \<open>
  What the program cannot decide by itself: the HTML parser (the child nodes of the
  parsed document), the answer of the network to the \<open>n\<close>-th fetch, which operations
  on the file system fail for a reason other than the one the program tests for, the
  listing of a directory, the outcome of \<open>os.mkdir\<close>, the clock and the time zone.
\<close>

datatype mkdir_outcome = Created | Exists | MkdirFailed

record env =
  parse :: "string \<Rightarrow> node list"
  fetch :: "nat \<Rightarrow> string \<Rightarrow> exn + string"
  open_fails :: "string \<Rightarrow> bool"
  write_fails :: "string \<Rightarrow> bool"
  remove_fails :: "string \<Rightarrow> bool"
  listdir :: "string \<Rightarrow> exn + string list"
  mkdir :: "string \<Rightarrow> mkdir_outcome"
  now :: int
  timezone :: int

text \<open>
  The files (path to content), the URLs fetched so far, and the lines printed to the
  error stream and to the standard output.
\<close>

record world =
  files :: "string \<Rightarrow> string option"
  fetched :: "string list"
  stderr :: "string list"
  stdout :: "string list"

definition warn :: "world \<Rightarrow> string \<Rightarrow> world" where
  "warn w msg = w\<lparr>stderr := stderr w @ [msg]\<rparr>"

text \<open>
  \<^verbatim>\<open>def log_if_v(msg):
      if args.verbose:
          print('[DEBUG] %s' % msg, file=sys.stderr)\<close>
\<close>

definition log_if_v :: "args \<Rightarrow> world \<Rightarrow> string \<Rightarrow> world" where
  "log_if_v a w msg = (if verbose a then warn w (''[DEBUG] '' @ msg) else w)"

section \<open>The handlers of \<open>cleanup_tree\<close>\<close>

subsection \<open>Video embeds\<close>

text \<open>The first element child of a document.\<close>

definition documentElement :: "node list \<Rightarrow> node option" where
  "documentElement doc = find (\<lambda>n. case n of Element tag attrs kids \<Rightarrow> True | _ \<Rightarrow> False) doc"

text \<open>
  The body of the \<open>try\<close> of the embed branch, on the parsed \<open>data-embed\<close> value:
  \<^verbatim>\<open>iframe = iframe_doc.documentElement.childNodes[1].firstChild
  if iframe.tagName != 'iframe':
      raise ValueError()
  new_node = doc.importNode(iframe, False)
  src = new_node.getAttribute('src')
  if src.startswith('//'):
      new_node.setAttribute('src', 'http:' + src)
  new_node.setAttribute('width', '525')
  new_node.setAttribute('height', '295')\<close>
  Reading an attribute of \<open>None\<close>, or \<open>tagName\<close> of a text or comment node, raises
  \<open>AttributeError\<close>.
\<close>

definition resolve_embed :: "node list \<Rightarrow> exn + node" where
  "resolve_embed iframe_doc =
     (case documentElement iframe_doc of
        None \<Rightarrow> Inl AttributeError
      | Some html \<Rightarrow>
     (case py_index (childNodes html) 1 of
        Inl x \<Rightarrow> Inl x
      | Inr body \<Rightarrow>
     (case firstChild body of
        None \<Rightarrow> Inl AttributeError
      | Some (Text d) \<Rightarrow> Inl AttributeError
      | Some (Comment d) \<Rightarrow> Inl AttributeError
      | Some (Element tag attrs kids) \<Rightarrow>
          if tag \<noteq> ''iframe'' then Inl (ValueError [])
          else
            (let src = getAttribute attrs ''src'';
                 attrs1 = (if startswith src ''//''
                           then setAttribute attrs ''src'' (''http:'' @ src) else attrs)
             in Inr (Element tag
                       (setAttribute (setAttribute attrs1 ''width'' ''525'') ''height'' ''295'')
                       [])))))"

text \<open>
  The embed branch: \<open>except Exception\<close> turns every failure of the body into a warning
  and a deep clone of the child.
\<close>

definition embed_branch :: "env \<Rightarrow> node \<Rightarrow> (string \<times> string) list \<Rightarrow> world \<Rightarrow> node \<times> world" where
  "embed_branch e child attrs w =
     (case resolve_embed (parse e (getAttribute attrs ''data-embed'')) of
        Inr new_node \<Rightarrow> (new_node, w)
      | Inl x \<Rightarrow> (child, warn w ''[WARNING] Failed to parse video embed code''))"

subsection \<open>Inline code\<close>

text \<open>
  The body of the \<open>try\<close> of the inline-code branch:
  \<^verbatim>\<open>span = child.firstChild.firstChild
  if span.tagName != 'span':
      raise ValueError()
  code_element = doc.createElement('code')
  code_element.appendChild(doc.createTextNode(get_text_content(span)))\<close>
\<close>

definition inline_code :: "node \<Rightarrow> exn + node" where
  "inline_code child =
     (case firstChild child of
        None \<Rightarrow> Inl AttributeError
      | Some pre \<Rightarrow>
     (case firstChild pre of
        None \<Rightarrow> Inl AttributeError
      | Some (Text d) \<Rightarrow> Inl AttributeError
      | Some (Comment d) \<Rightarrow> Inl AttributeError
      | Some (Element tag attrs kids) \<Rightarrow>
          if tag \<noteq> ''span'' then Inl (ValueError [])
          else Inr (Element ''code'' [] [Text (get_text_content (Element tag attrs kids))])))"

text \<open>
  The inline-code branch catches \<open>ValueError\<close> only (\<open>except ValueError\<close>); any other
  exception of the body leaves \<open>cleanup_tree\<close>.
\<close>

definition inline_code_branch :: "node \<Rightarrow> world \<Rightarrow> exn + node \<times> world" where
  "inline_code_branch child w =
     (case inline_code child of
        Inr code_element \<Rightarrow> Inr (code_element, w)
      | Inl (ValueError msg) \<Rightarrow> Inr (child, warn w ''[WARNING] Failed to parse inline codeblock'')
      | Inl x \<Rightarrow> Inl x)"

subsection \<open>Code blocks\<close>

text \<open>
  \<^verbatim>\<open>divs = child.getElementsByTagName('div')
  lines = []
  for div in divs:
      spans = div.getElementsByTagName('span')
      line = ''.join([get_text_content(span) for span in spans])
      lines.append(line)
  text_node = doc.createTextNode('\n'.join(lines))\<close>
  wrapped in \<open>pre > code\<close>. No step of the body raises on a tree of this model.
\<close>

definition code_line :: "node \<Rightarrow> string" where
  "code_line line_div = concat (map get_text_content (elems_by_tag ''span'' (childNodes line_div)))"

definition codeblock_branch :: "node list \<Rightarrow> node" where
  "codeblock_branch kids =
     Element ''pre'' []
       [Element ''code'' [] [Text (join [CHR 0x0A] (map code_line (elems_by_tag ''div'' kids)))]]"

subsection \<open>Images\<close>

text \<open>
  \<open>re.search('/([^/?]+)(\?|$)', src)\<close>, group 1: at the leftmost slash where it
  succeeds, the maximal run of characters other than \<open>/\<close> and \<open>?\<close>, which must not be
  empty and must be followed by \<open>?\<close> or by the end of the string.
\<close>

fun last_segment :: "string \<Rightarrow> string option" where
  "last_segment [] = None"
| "last_segment (c # cs) =
     (if c = CHR ''/'' then
        (let run = takeWhile (\<lambda>x. x \<noteq> CHR ''/'' \<and> x \<noteq> CHR ''?'') cs;
             r = dropWhile (\<lambda>x. x \<noteq> CHR ''/'' \<and> x \<noteq> CHR ''?'') cs
         in if run \<noteq> [] \<and> (case r of [] \<Rightarrow> True | x # xs \<Rightarrow> x = CHR ''?'') then Some run
            else last_segment cs)
      else last_segment cs)"

text \<open>
  \<^verbatim>\<open>filename = m.group(1)
  if not filename.endswith('.png'):
      filename += '.png'\<close>
\<close>

definition local_name :: "string \<Rightarrow> string" where
  "local_name seg = (if endswith seg ''.png'' then seg else seg @ ''.png'')"

text \<open>
  The cleanup after a failed download: \<open>os.remove\<close>, and a warning when that fails too.
\<close>

definition remove_incomplete :: "env \<Rightarrow> string \<Rightarrow> string \<Rightarrow> world \<Rightarrow> world" where
  "remove_incomplete e path filename w =
     (if remove_fails e path
      then warn w (''[WARNING] Failed to remove incomplete file '' @ filename)
      else w\<lparr>files := (files w)(path := None)\<rparr>)"

text \<open>
  \<^verbatim>\<open>src = child.getAttribute('master_src')
  if src == '':
      src = child.getAttribute('src')\<close>
\<close>

definition img_src :: "(string \<times> string) list \<Rightarrow> string" where
  "img_src attrs =
     (if getAttribute attrs ''master_src'' = [] then getAttribute attrs ''src''
      else getAttribute attrs ''master_src'')"

text \<open>
  The image branch. It returns the \<open>img\<close> element that is appended to \<open>dest\<close> (in the
  \<open>finally\<close> clause, or before \<open>continue\<close> when downloads are off) and the new world.
  \<open>os.open\<close> with \<open>O_CREAT | O_EXCL\<close> fails with \<open>EEXIST\<close> when the path exists; the
  reasons that the source prints in parentheses after a warning are left out.
  The three \<open>except\<close> clauses catch \<open>URLError\<close>, \<open>OSError\<close> and \<open>ValueError\<close>; any other
  exception leaves \<open>cleanup_tree\<close>.
\<close>

definition img_branch :: "args \<Rightarrow> env \<Rightarrow> (string \<times> string) list \<Rightarrow> world \<Rightarrow> exn + node \<times> world" where
  "img_branch a e attrs w =
     (let src = img_src attrs;
          new_attrs = setAttribute (setAttribute [] ''src'' src) ''alt'' (getAttribute attrs ''alt'')
      in if no_download a then Inr (Element ''img'' new_attrs [], w)
         else case last_segment src of
           None \<Rightarrow>
             Inr (Element ''img'' new_attrs [],
                  warn w (''[WARNING] Failed to determine image name from URL '' @ src))
         | Some seg \<Rightarrow>
             (let filename = local_name seg;
                  path = output_dir a @ ''/'' @ filename;
                  saved = Element ''img'' (setAttribute new_attrs ''src'' filename) [];
                  save_failed = ''[WARNING] Failed to save image from URL '' @ src
                                  @ '' to file '' @ filename
              in if files w path \<noteq> None then
                   Inr (saved, log_if_v a w (''Image '' @ filename @ '' has already been saved; skipping''))
                 else if open_fails e path then
                   Inr (Element ''img'' new_attrs [], warn w save_failed)
                 else
                   (let w1 = log_if_v a (w\<lparr>files := (files w)(path \<mapsto> [])\<rparr>)
                               (''Downloading image from '' @ src);
                        w2 = w1\<lparr>fetched := fetched w1 @ [src]\<rparr>
                    in case fetch e (length (fetched w1)) src of
                         Inr img \<Rightarrow>
                           if write_fails e path then
                             Inr (Element ''img'' new_attrs [],
                                  warn (remove_incomplete e path filename w2) save_failed)
                           else Inr (saved, w2\<lparr>files := (files w2)(path \<mapsto> img)\<rparr>)
                       | Inl URLError \<Rightarrow>
                           Inr (Element ''img'' new_attrs [],
                                warn (remove_incomplete e path filename w2)
                                  (''[WARNING] Failed to download image from URL '' @ src))
                       | Inl OSError \<Rightarrow>
                           Inr (Element ''img'' new_attrs [],
                                warn (remove_incomplete e path filename w2) save_failed)
                       | Inl (ValueError msg) \<Rightarrow>
                           Inr (Element ''img'' new_attrs [],
                                warn (remove_incomplete e path filename w2)
                                  (''[WARNING] Failed to determine image name from URL '' @ src))
                       | Inl x \<Rightarrow> Inl x)))"

section \<open>\<open>cleanup_tree\<close>\<close>

text \<open>
  The branch that the \<open>if\<close> / \<open>elif\<close> chain of \<open>cleanup_tree\<close> takes for an element
  child, from its tag name and attributes, in the order of the source. The tests on the
  class are substring tests on the attribute value
  (\<^verbatim>\<open>'question_text' in child.getAttribute('class')\<close>).
\<close>

datatype rule =
    RVoid | RPass | RTitle | REmbed | RInlineCode | RSkip
  | RUnwrap | RLink | RImg | RCodeBlock | RUnknown

definition rule_of :: "string \<Rightarrow> (string \<times> string) list \<Rightarrow> rule" where
  "rule_of tag attrs =
     (if tag \<in> set [''br'', ''hr''] then RVoid
      else if tag \<in> set [''b'', ''i'', ''u'', ''h1'', ''h2'', ''ol'', ''ul'', ''li'',
                          ''blockquote'', ''wbr'', ''p''] then RPass
      else if contains ''question_text'' (getAttribute attrs ''class'') then RTitle
      else if contains ''board_item_title'' (getAttribute attrs ''class'') then RTitle
      else if getAttribute attrs ''data-embed'' \<noteq> [] then REmbed
      else if contains ''inline_codeblock'' (getAttribute attrs ''class'') then RInlineCode
      else if contains ''ContentFooter'' (getAttribute attrs ''class'')
              \<or> contains ''hidden'' (getAttribute attrs ''class'') then RSkip
      else if tag \<in> set [''span'', ''div''] then RUnwrap
      else if tag = ''a'' then RLink
      else if tag = ''img'' then RImg
      else if contains ''codeblocktable'' (getAttribute attrs ''class'') then RCodeBlock
      else RUnknown)"

text \<open>
  \<^verbatim>\<open>href = child.getAttribute('href')
  if href.startswith('/'):
      href = 'http://quora.com' + href\<close>
\<close>

definition link_href :: "(string \<times> string) list \<Rightarrow> string" where
  "link_href attrs =
     (if startswith (getAttribute attrs ''href'') ''/''
      then ''http://quora.com'' @ getAttribute attrs ''href''
      else getAttribute attrs ''href'')"

text \<open>
  \<open>cleanup_tree a e seen src dest w\<close> is the loop \<open>for child in src.childNodes\<close> of
  \<open>cleanup_tree(doc, src, dest)\<close>: \<open>src\<close> holds the children that the iterator has not
  reached, \<open>seen\<close> those that it has passed and that are still children of the source
  node, \<open>dest\<close> the children of the destination node. The result is the final child list
  of the source node, the final child list of the destination node and the world, or
  the exception that leaves the function.

  The title branch calls \<open>new_node.appendChild(child)\<close>, which unlinks \<open>child\<close> from the
  source node while the loop runs over that very list: the list iterator then is one
  position ahead, and the sibling that follows \<open>child\<close> is never visited.
  A recursive call works on the children of \<open>child\<close>; what it leaves of them replaces
  them in the source.
\<close>

fun cleanup_tree ::
  "args \<Rightarrow> env \<Rightarrow> node list \<Rightarrow> node list \<Rightarrow> node list \<Rightarrow> world
     \<Rightarrow> exn + node list \<times> node list \<times> world" where
  "cleanup_tree a e seen [] dest w = Inr (seen, dest, w)"
| "cleanup_tree a e seen (Text d # rest) dest w =
     cleanup_tree a e (seen @ [Text d]) rest (dest @ [Text d]) w"
| "cleanup_tree a e seen (Comment d # rest) dest w = Inl (ValueError [])"
| "cleanup_tree a e seen (Element tag attrs kids # rest) dest w =
     (case rule_of tag attrs of
        RVoid \<Rightarrow>
          cleanup_tree a e (seen @ [Element tag attrs kids]) rest
            (dest @ [shallow_clone (Element tag attrs kids)]) w
      | RPass \<Rightarrow>
          (case cleanup_tree a e [] kids [] w of
             Inl x \<Rightarrow> Inl x
           | Inr (kids', new_kids, w') \<Rightarrow>
               cleanup_tree a e (seen @ [Element tag attrs kids']) rest
                 (dest @ [Element tag [] new_kids]) w')
      | RTitle \<Rightarrow>
          (case rest of
             [] \<Rightarrow> Inr (seen, dest @ [Element ''h1'' [] [Element tag attrs kids]], w)
           | skipped # rest' \<Rightarrow>
               cleanup_tree a e (seen @ [skipped]) rest'
                 (dest @ [Element ''h1'' [] [Element tag attrs kids]]) w)
      | REmbed \<Rightarrow>
          (case embed_branch e (Element tag attrs kids) attrs w of
             (new_node, w') \<Rightarrow>
               cleanup_tree a e (seen @ [Element tag attrs kids]) rest (dest @ [new_node]) w')
      | RInlineCode \<Rightarrow>
          (case inline_code_branch (Element tag attrs kids) w of
             Inl x \<Rightarrow> Inl x
           | Inr (new_node, w') \<Rightarrow>
               cleanup_tree a e (seen @ [Element tag attrs kids]) rest (dest @ [new_node]) w')
      | RSkip \<Rightarrow> cleanup_tree a e (seen @ [Element tag attrs kids]) rest dest w
      | RUnwrap \<Rightarrow>
          (case cleanup_tree a e [] kids dest w of
             Inl x \<Rightarrow> Inl x
           | Inr (kids', dest', w') \<Rightarrow>
               cleanup_tree a e (seen @ [Element tag attrs kids']) rest dest' w')
      | RLink \<Rightarrow>
          (case cleanup_tree a e [] kids [] w of
             Inl x \<Rightarrow> Inl x
           | Inr (kids', new_kids, w') \<Rightarrow>
               cleanup_tree a e (seen @ [Element tag attrs kids']) rest
                 (dest @ [Element ''a'' [(''href'', link_href attrs)] new_kids]) w')
      | RImg \<Rightarrow>
          (case img_branch a e attrs w of
             Inl x \<Rightarrow> Inl x
           | Inr (new_node, w') \<Rightarrow>
               cleanup_tree a e (seen @ [Element tag attrs kids]) rest (dest @ [new_node]) w')
      | RCodeBlock \<Rightarrow>
          cleanup_tree a e (seen @ [Element tag attrs kids]) rest
            (dest @ [codeblock_branch kids]) w
      | RUnknown \<Rightarrow>
          cleanup_tree a e (seen @ [Element tag attrs kids]) rest
            (dest @ [Element tag attrs kids])
            (warn w (''[WARNING] Unrecognized node '' @ tag)))"

section \<open>The per-file loop\<close>

text \<open>
  The loop over the \<open>div\<close> elements changes text nodes of the document while it holds
  references to elements of that document, so an element is referred to by its path:
  the child indices from the document down to it. The loop changes no child list, so
  the paths computed by \<open>getElementsByTagName\<close> before the loop stay valid.
\<close>

type_synonym path = "nat list"

fun paths_by_tag :: "string \<Rightarrow> nat \<Rightarrow> node list \<Rightarrow> path list" where
  "paths_by_tag name i [] = []"
| "paths_by_tag name i (Element tag attrs kids # rest) =
     (if tag = name then [[i]] else [])
       @ map ((#) i) (paths_by_tag name 0 kids) @ paths_by_tag name (Suc i) rest"
| "paths_by_tag name i (n # rest) = paths_by_tag name (Suc i) rest"

fun get_at :: "node list \<Rightarrow> path \<Rightarrow> node option" where
  "get_at ns [] = None"
| "get_at ns [i] = (if i < length ns then Some (ns ! i) else None)"
| "get_at ns (i # j # p) =
     (if i < length ns then get_at (childNodes (ns ! i)) (j # p) else None)"

fun update_at :: "(node \<Rightarrow> node) \<Rightarrow> node list \<Rightarrow> path \<Rightarrow> node list" where
  "update_at f ns [] = ns"
| "update_at f ns [i] = (if i < length ns then ns[i := f (ns ! i)] else ns)"
| "update_at f ns (i # j # p) =
     (if i < length ns then
        (case ns ! i of
           Element tag attrs kids \<Rightarrow> ns[i := Element tag attrs (update_at f kids (j # p))]
         | _ \<Rightarrow> ns)
      else ns)"

text \<open>
  \<^verbatim>\<open>def get_title_node(document):
      for node in document.getElementsByTagName('title'):
          return node
      return None\<close>
\<close>

definition get_title_node :: "node list \<Rightarrow> node option" where
  "get_title_node document = (case elems_by_tag ''title'' document of [] \<Rightarrow> None | t # ts \<Rightarrow> Some t)"

text \<open>\<open>name in node.getAttribute('class').split()\<close>\<close>

definition has_class :: "string \<Rightarrow> node \<Rightarrow> bool" where
  "has_class name n =
     (case n of Element tag attrs kids \<Rightarrow> name \<in> set (split (getAttribute attrs ''class''))
      | _ \<Rightarrow> False)"

subsection \<open>The two footers\<close>

text \<open>\<open>nodeValue\<close> is the data of a text or comment node and \<open>None\<close> for an element.\<close>

definition nodeValue :: "node \<Rightarrow> string option" where
  "nodeValue n = (case n of Text d \<Rightarrow> Some d | Comment d \<Rightarrow> Some d | _ \<Rightarrow> None)"

definition set_nodeValue :: "string \<Rightarrow> node \<Rightarrow> node" where
  "set_nodeValue v n = (case n of Text d \<Rightarrow> Text v | Comment d \<Rightarrow> Comment v | _ \<Rightarrow> n)"

text \<open>
  \<open>date_node.getElementsByTagName('a')[k].firstChild.nodeValue\<close>, read and assigned;
  \<open>kids\<close> are the children of \<open>date_node\<close>.
\<close>

definition anchor_value :: "node list \<Rightarrow> int \<Rightarrow> exn + string option" where
  "anchor_value kids k =
     (case py_index (paths_by_tag ''a'' 0 kids) k of
        Inl x \<Rightarrow> Inl x
      | Inr p \<Rightarrow>
          (case get_at kids p of
             None \<Rightarrow> Inl IndexError
           | Some anchor \<Rightarrow>
               (case firstChild anchor of
                  None \<Rightarrow> Inl AttributeError
                | Some c \<Rightarrow> Inr (nodeValue c))))"

definition set_first_child :: "string \<Rightarrow> node \<Rightarrow> node" where
  "set_first_child v anchor =
     (case anchor of
        Element tag attrs (c # cs) \<Rightarrow> Element tag attrs (set_nodeValue v c # cs)
      | _ \<Rightarrow> anchor)"

definition set_anchor_value :: "node list \<Rightarrow> int \<Rightarrow> string \<Rightarrow> exn + node list" where
  "set_anchor_value kids k v =
     (case py_index (paths_by_tag ''a'' 0 kids) k of
        Inl x \<Rightarrow> Inl x
      | Inr p \<Rightarrow>
          (case get_at kids p of
             None \<Rightarrow> Inl IndexError
           | Some anchor \<Rightarrow>
               (case firstChild anchor of
                  None \<Rightarrow> Inl AttributeError
                | Some c \<Rightarrow> Inr (update_at (set_first_child v) kids p))))"

text \<open>
  \<open>re.match(word + ' (.+ ago)', text)\<close>, group 1, for \<open>word\<close> one of \<open>Answered\<close> and
  \<open>Posted\<close>: \<open>.\<close> matches no newline and \<open>.+\<close> is greedy, so the group is the longest
  prefix of the rest of the first line that ends in \<open>' ago'\<close> and has a character
  before it.
\<close>

fun ago_group :: "string \<Rightarrow> string \<Rightarrow> string option" where
  "ago_group pre [] = None"
| "ago_group pre (c # cs) =
     (case ago_group (pre @ [c]) cs of
        Some g \<Rightarrow> Some g
      | None \<Rightarrow> if pre \<noteq> [] \<and> startswith (c # cs) '' ago'' then Some (pre @ '' ago'') else None)"

definition m_ago :: "string \<Rightarrow> string \<Rightarrow> string option" where
  "m_ago word text =
     (if startswith text (word @ '' '')
      then ago_group [] (takeWhile (\<lambda>c. c \<noteq> CHR 0x0A) (drop (length word + 1) text))
      else None)"

text \<open>
  The body of the \<open>try\<close> of a footer branch, on the children of \<open>date_node\<close>:
  \<^verbatim>\<open>text = date_node.getElementsByTagName('a')[0].firstChild.nodeValue
  matchObj = re.match(r'Answered (.+ ago)', text)
  if matchObj:
      new_time = parse_quora_date(origin, matchObj.group(1))
      date_node.getElementsByTagName('a')[0].firstChild.nodeValue = 'Answered %s' % new_time\<close>
  The post footer has \<open>Posted\<close> for \<open>Answered\<close>, and assigns to the anchor with index 1;
  \<open>k\<close> is the index of the anchor assigned to. \<open>re.match\<close> on \<open>None\<close> raises \<open>TypeError\<close>.
\<close>

definition footer_rewrite :: "int \<Rightarrow> string \<Rightarrow> int \<Rightarrow> node list \<Rightarrow> exn + node list" where
  "footer_rewrite origin word k kids =
     (case anchor_value kids 0 of
        Inl x \<Rightarrow> Inl x
      | Inr None \<Rightarrow> Inl TypeError
      | Inr (Some text) \<Rightarrow>
          (case m_ago word text of
             None \<Rightarrow> Inr kids
           | Some rel \<Rightarrow>
               (case parse_quora_date origin rel of
                  Inl x \<Rightarrow> Inl x
                | Inr new_time \<Rightarrow> set_anchor_value kids k (word @ '' '' @ new_time))))"

text \<open>\<open>except Exception: pass\<close>: a failure of the body leaves the footer as it was.\<close>

definition footer_branch :: "int \<Rightarrow> string \<Rightarrow> int \<Rightarrow> node \<Rightarrow> node" where
  "footer_branch origin word k date_node =
     (case date_node of
        Element tag attrs kids \<Rightarrow>
          (case footer_rewrite origin word k kids of
             Inl x \<Rightarrow> date_node
           | Inr kids' \<Rightarrow> Element tag attrs kids')
      | _ \<Rightarrow> date_node)"

subsection \<open>Classifying the \<open>div\<close> elements\<close>

record regions =
  answer_node :: "path option"
  post_node :: "path option"
  question_node :: "path option"
  date_node :: "path option"

definition no_regions :: regions where
  "no_regions = \<lparr>answer_node = None, post_node = None, question_node = None, date_node = None\<rparr>"

text \<open>One iteration of \<open>for node in document.getElementsByTagName('div')\<close>.\<close>

definition scan_div :: "int \<Rightarrow> node list \<times> regions \<Rightarrow> path \<Rightarrow> node list \<times> regions" where
  "scan_div origin st p =
     (case st of (document, r) \<Rightarrow>
       (case get_at document p of
          None \<Rightarrow> (document, r)
        | Some n \<Rightarrow>
            if has_class ''ExpandedAnswer'' n then (document, r\<lparr>answer_node := Some p\<rparr>)
            else if has_class ''ExpandedPostContent'' n then (document, r\<lparr>post_node := Some p\<rparr>)
            else if has_class ''ans_page_question_header'' n
              then (document, r\<lparr>question_node := Some p\<rparr>)
            else if has_class ''BoardItem'' n then (document, r\<lparr>question_node := Some p\<rparr>)
            else if has_class ''CredibilityFacts'' n
              then (update_at (footer_branch origin ''Answered'' 0) document p,
                    r\<lparr>date_node := Some p\<rparr>)
            else if has_class ''PostFooter'' n
              then (update_at (footer_branch origin ''Posted'' 1) document p,
                    r\<lparr>date_node := Some p\<rparr>)
            else (document, r)))"

definition scan_divs :: "int \<Rightarrow> node list \<Rightarrow> node list \<times> regions" where
  "scan_divs origin document =
     foldl (scan_div origin) (document, no_regions) (paths_by_tag ''div'' 0 document)"

subsection \<open>One file, and the run\<close>

text \<open>
  Lines 376 to 426 of the source build the new page from the regions found, serialize
  it and write it to the output directory. They run only for a file that has passed
  the two region checks, and they are a parameter here: the document after the scan,
  the title node, the regions, the file name and the world go in, the new world or
  the exception that leaves the loop body comes out.
\<close>

type_synonym assemble =
  "node list \<Rightarrow> node option \<Rightarrow> regions \<Rightarrow> string \<Rightarrow> world \<Rightarrow> exn + world"

text \<open>
  The body of \<open>for filename in filenames\<close>. A file that cannot be read has no entry
  in \<open>files\<close>. Both warnings about a missing region format their message with the
  variable \<open>url\<close>,
  \<^verbatim>\<open>print('[WARNING] Failed to locate answer on page (Source URL was %s)' % url, file=sys.stderr)
  continue\<close>
  and no statement of the program binds that name, so evaluating the argument of
  \<open>print\<close> raises \<open>NameError\<close>, before anything is printed and before \<open>continue\<close>.
\<close>

definition convert_file ::
  "args \<Rightarrow> env \<Rightarrow> assemble \<Rightarrow> int \<Rightarrow> world \<Rightarrow> string \<Rightarrow> exn + world" where
  "convert_file a e assemble_page origin w filename =
     (let w1 = warn w (''Filename: '' @ filename)
      in case files w1 (input_dir a @ ''/'' @ filename) of
           None \<Rightarrow> Inr (w1\<lparr>stdout := stdout w1 @ [''[ERROR] Failed to read '' @ filename]\<rparr>)
         | Some page_html \<Rightarrow>
             (let document = parse e page_html;
                  title_node = get_title_node document;
                  w2 = log_if_v a w1
                         (''Title: '' @ (case title_node of
                                           None \<Rightarrow> ''(could not be determined)''
                                         | Some t \<Rightarrow> get_text_content t));
                  scanned = scan_divs origin document
              in if answer_node (snd scanned) = None \<and> post_node (snd scanned) = None
                   then Inl (NameError ''url'')
                 else if question_node (snd scanned) = None
                   then Inl (NameError ''url'')
                 else assemble_page (fst scanned) title_node (snd scanned) filename w2))"

fun convert_all ::
  "args \<Rightarrow> env \<Rightarrow> assemble \<Rightarrow> int \<Rightarrow> world \<Rightarrow> string list \<Rightarrow> exn + world" where
  "convert_all a e assemble_page origin w [] = Inr w"
| "convert_all a e assemble_page origin w (filename # filenames) =
     (case convert_file a e assemble_page origin w filename of
        Inl x \<Rightarrow> Inl x
      | Inr w' \<Rightarrow> convert_all a e assemble_page origin w' filenames)"

text \<open>
  \<^verbatim>\<open>if args.origin_timestamp is None:
      args.origin_timestamp = time.time()
  else:
      args.origin_timestamp //= 1000
  if args.origin_timezone is None:
      args.origin_timezone = time.timezone
  else:
      args.origin_timezone *= 60
  origin = args.origin_timestamp - args.origin_timezone\<close>
\<close>

definition origin_of :: "args \<Rightarrow> env \<Rightarrow> int" where
  "origin_of a e =
     (case origin_timestamp a of None \<Rightarrow> now e | Some t \<Rightarrow> t div 1000)
       - (case origin_timezone a of None \<Rightarrow> timezone e | Some z \<Rightarrow> z * 60)"

text \<open>
  The script from the argument parser to \<open>print('Done')\<close>. \<open>Inr\<close> is a run that reaches
  its last line (exit status zero), \<open>Inl\<close> a run that an exception ends. With no input
  file the source calls \<open>sys.exit\<close> with two arguments, which raises \<open>TypeError\<close>.
\<close>

definition run :: "args \<Rightarrow> env \<Rightarrow> assemble \<Rightarrow> world \<Rightarrow> exn + world" where
  "run a e assemble_page w =
     (let wt = (if origin_timestamp a = None then log_if_v a w ''Using current time'' else w);
          w0 = (if origin_timezone a = None then log_if_v a wt ''Using system time zone'' else wt)
      in case listdir e (input_dir a) of
           Inl x \<Rightarrow> Inl x
         | Inr names \<Rightarrow>
             (let filenames = sort (filter (\<lambda>f. endswith f ''.html'') names)
              in if filenames = [] then Inl TypeError
                 else
                   (let w1 = warn w0 (''Found '' @ str_nat (length filenames) @ '' answers'');
                        w2 = log_if_v a w1 (''Creating directory '' @ output_dir a)
                    in case mkdir e (output_dir a) of
                         MkdirFailed \<Rightarrow> Inl OSError
                       | outcome \<Rightarrow>
                           (case convert_all a e assemble_page (origin_of a e)
                                   (if outcome = Exists
                                    then log_if_v a w2 ''Directory already exists'' else w2)
                                   filenames of
                              Inl x \<Rightarrow> Inl x
                            | Inr w3 \<Rightarrow> Inr (warn w3 ''Done'')))))"

section \<open>Predicates on trees and concrete inputs\<close>

text \<open>
  A tree of text nodes and of the tags that the first two element rules of
  \<open>cleanup_tree\<close> name. \<open>br\<close> and \<open>hr\<close> are void elements of HTML: the parser never
  gives them children.
\<close>

fun plain :: "node \<Rightarrow> bool" and plain_list :: "node list \<Rightarrow> bool" where
  "plain (Text d) = True"
| "plain (Comment d) = False"
| "plain (Element tag attrs kids) =
     (if tag \<in> set [''br'', ''hr''] then kids = []
      else tag \<in> set [''b'', ''i'', ''u'', ''h1'', ''h2'', ''ol'', ''ul'', ''li'',
                        ''blockquote'', ''wbr'', ''p''] \<and> plain_list kids)"
| "plain_list [] = True"
| "plain_list (n # ns) = (plain n \<and> plain_list ns)"

text \<open>A tree without its attributes: tag names, text and the order of the children.\<close>

fun skeleton :: "node \<Rightarrow> node" where
  "skeleton (Element tag attrs kids) = Element tag [] (map skeleton kids)"
| "skeleton (Text d) = Text d"
| "skeleton (Comment d) = Comment d"

text \<open>No element of the tree takes the title branch.\<close>

fun untitled :: "node \<Rightarrow> bool" and untitled_list :: "node list \<Rightarrow> bool" where
  "untitled (Text d) = True"
| "untitled (Comment d) = True"
| "untitled (Element tag attrs kids) = (rule_of tag attrs \<noteq> RTitle \<and> untitled_list kids)"
| "untitled_list [] = True"
| "untitled_list (n # ns) = (untitled n \<and> untitled_list ns)"



text \<open>
  The origin 2015-02-01T00:00:00Z, given as \<open>-t 1422748800000 -z 0\<close>; an environment
  with a network that serves every URL, and one whose network is down; an input
  directory with two pages, the first of which has no \<open>div\<close> at all.
\<close>

definition example_args :: args where
  "example_args =
     \<lparr>input_dir = ''quora-answers'', output_dir = ''cooked'', no_download = False,
      verbose = False, origin_timestamp = Some 1422748800000, origin_timezone = Some 0\<rparr>"

definition example_page :: "node list" where
  "example_page =
     [Element ''html'' []
        [Element ''head'' [] [Element ''title'' [] [Text ''A page'']],
         Element ''body'' [] [Element ''p'' [] [Text ''Nothing to see'']]]]"

definition example_env :: env where
  "example_env =
     \<lparr>parse = (\<lambda>html. example_page),
      fetch = (\<lambda>n url. Inr ''image bytes''),
      open_fails = (\<lambda>path. False),
      write_fails = (\<lambda>path. False),
      remove_fails = (\<lambda>path. False),
      listdir = (\<lambda>dir. Inr [''b.html'', ''a.html'', ''notes.txt'']),
      mkdir = (\<lambda>dir. Created),
      now = 0,
      timezone = 0\<rparr>"


definition example_world :: world where
  "example_world =
     \<lparr>files = [''quora-answers/a.html'' \<mapsto> ''<html>a</html>'',
               ''quora-answers/b.html'' \<mapsto> ''<html>b</html>''],
      fetched = [], stderr = [], stdout = []\<rparr>"

definition post_footer :: node where
  "post_footer =
     Element ''div'' [(''class'', ''PostFooter'')]
       [Element ''a'' [] [Text ''Posted 3h ago''], Element ''a'' [] [Text ''Comment'']]"

definition credibility_footer :: node where
  "credibility_footer =
     Element ''div'' [(''class'', ''CredibilityFacts'')]
       [Element ''a'' [] [Text ''Answered 3h ago''], Element ''a'' [] [Text ''Comment'']]"


definition plain_example :: "node list" where
  "plain_example =
     [Element ''p'' [(''class'', ''qtext_para'')]
        [Text ''one'', Element ''br'' [] [], Element ''b'' [] [Text ''two'']],
      Text ''three'']"

definition link_example :: "node list" where
  "link_example =
     [Element ''span'' [(''class'', ''rendered_qtext'')]
        [Text ''by '', Element ''a'' [(''href'', ''/Jane-Doe'')] [Text ''Jane'']]]"

definition title_example :: node where
  "title_example = Element ''div'' [(''class'', ''question_text'')] [Text ''Why?'']"


section \<open>The weekday walk\<close>

lemma gmtime_wday:
  "tm_wday (gmtime (origin - 86400 * int k)) = (origin div 86400 - int k + 3) mod 7"
proof -
  have "(origin - 86400 * int k) div 86400 = origin div 86400 - int k"
    by (simp add: algebra_simps)
  then show ?thesis by (simp add: gmtime_def Let_def)
qed

lemma walk_back_None:
  "walk_back limit hit origin offset = None \<longleftrightarrow>
     (\<forall>k. offset \<le> k \<and> k \<le> limit \<longrightarrow> \<not> hit (gmtime (origin - 86400 * int k)))"
proof (induction limit hit origin offset rule: walk_back.induct)
  case (1 limit hit origin offset)
  show ?case
  proof (cases "offset \<le> limit")
    case False
    then show ?thesis by (subst walk_back.simps) auto
  next
    case True
    show ?thesis
    proof (cases "hit (gmtime (origin - 86400 * int offset))")
      case True
      with \<open>offset \<le> limit\<close> show ?thesis
        by (subst walk_back.simps) (auto simp: Let_def)
    next
      case False
      with \<open>offset \<le> limit\<close> 1 have
        "walk_back limit hit origin offset = None \<longleftrightarrow>
           (\<forall>k. offset + 1 \<le> k \<and> k \<le> limit \<longrightarrow> \<not> hit (gmtime (origin - 86400 * int k)))"
        by (subst walk_back.simps) (simp add: Let_def)
      also have "\<dots> \<longleftrightarrow>
           (\<forall>k. offset \<le> k \<and> k \<le> limit \<longrightarrow> \<not> hit (gmtime (origin - 86400 * int k)))"
      proof
        assume h: "\<forall>k. offset + 1 \<le> k \<and> k \<le> limit \<longrightarrow> \<not> hit (gmtime (origin - 86400 * int k))"
        show "\<forall>k. offset \<le> k \<and> k \<le> limit \<longrightarrow> \<not> hit (gmtime (origin - 86400 * int k))"
        proof (intro allI impI)
          fix k assume "offset \<le> k \<and> k \<le> limit"
          then show "\<not> hit (gmtime (origin - 86400 * int k))"
            using False h by (cases "k = offset") auto
        qed
      next
        assume "\<forall>k. offset \<le> k \<and> k \<le> limit \<longrightarrow> \<not> hit (gmtime (origin - 86400 * int k))"
        then show "\<forall>k. offset + 1 \<le> k \<and> k \<le> limit \<longrightarrow> \<not> hit (gmtime (origin - 86400 * int k))"
          by auto
      qed
      finally show ?thesis .
    qed
  qed
qed

lemma walk_back_Some:
  "walk_back limit hit origin offset = Some tm \<Longrightarrow>
     \<exists>k. offset \<le> k \<and> k \<le> limit \<and> tm = gmtime (origin - 86400 * int k) \<and> hit tm
          \<and> (\<forall>j. offset \<le> j \<and> j < k \<longrightarrow> \<not> hit (gmtime (origin - 86400 * int j)))"
proof (induction limit hit origin offset rule: walk_back.induct)
  case (1 limit hit origin offset)
  from "1.prems" have le: "offset \<le> limit"
    by (subst (asm) walk_back.simps) (simp split: if_splits)
  show ?case
  proof (cases "hit (gmtime (origin - 86400 * int offset))")
    case True
    with le "1.prems" have "tm = gmtime (origin - 86400 * int offset)"
      by (subst (asm) walk_back.simps) (simp add: Let_def)
    with True le show ?thesis by auto
  next
    case False
    with le "1.prems" have "walk_back limit hit origin (offset + 1) = Some tm"
      by (subst (asm) walk_back.simps) (simp add: Let_def)
    with "1.IH" le False obtain k where k: "offset + 1 \<le> k" "k \<le> limit"
      "tm = gmtime (origin - 86400 * int k)" "hit tm"
      "\<forall>j. offset + 1 \<le> j \<and> j < k \<longrightarrow> \<not> hit (gmtime (origin - 86400 * int j))"
      by blast
    have "\<forall>j. offset \<le> j \<and> j < k \<longrightarrow> \<not> hit (gmtime (origin - 86400 * int j))"
    proof (intro allI impI)
      fix j assume "offset \<le> j \<and> j < k"
      then show "\<not> hit (gmtime (origin - 86400 * int j))"
        using False k(5) by (cases "j = offset") auto
    qed
    with k show ?thesis by (intro exI[of _ k]) auto
  qed
qed

lemma weekday_within_7:
  assumes "0 \<le> d" "d < 7"
  shows "\<exists>k::nat. 1 \<le> k \<and> k \<le> 7 \<and> (D - int k + 3) mod 7 = d"
proof -
  define k where "k = nat ((D + 2 - d) mod 7) + 1"
  have ik: "int k = (D + 2 - d) mod 7 + 1" unfolding k_def by simp
  have "1 \<le> k" "k \<le> 7" unfolding k_def by auto
  moreover have "(D - int k + 3) mod 7 = d"
  proof -
    have "D - int k + 3 = (D + 2) - (D + 2 - d) mod 7" unfolding ik by simp
    then have "(D - int k + 3) mod 7 = ((D + 2) - (D + 2 - d)) mod 7"
      by (simp only: mod_diff_right_eq)
    also have "\<dots> = d" using assms by simp
    finally show ?thesis .
  qed
  ultimately show ?thesis by blast
qed

lemma weekday_matchers:
  assumes "n \<in> set days_of_week"
  shows "\<not> m_just_now n \<and> m_clock n = None \<and> m_num ''m ago'' n = None
    \<and> m_num ''h ago'' n = None \<and> m_weekday n = Some n"
proof -
  from assms have "n = ''Mon'' \<or> n = ''Tue'' \<or> n = ''Wed'' \<or> n = ''Thu''
    \<or> n = ''Fri'' \<or> n = ''Sat'' \<or> n = ''Sun''"
    unfolding days_of_week_def by simp
  then show ?thesis
    by (elim disjE)
       (simp_all add: m_just_now_def m_clock_def m_num_def m_weekday_def is_digit_def
          days_of_week_def at_end_def)
qed

lemma weekday_branch:
  "n \<in> set days_of_week \<Longrightarrow>
     resolve_tm origin n =
       (case walk_back 7 (\<lambda>tm. tm_wday tm = int (index_of days_of_week n)) origin 1 of
          Some tm \<Rightarrow> Inr tm | None \<Rightarrow> Inl (invalid_date n))"
  by (simp add: resolve_tm_def weekday_matchers)

lemma weekday_index: "n \<in> set days_of_week \<Longrightarrow> index_of days_of_week n < 7"
  unfolding days_of_week_def by auto

text \<open>
  For a weekday name, the walk of \<open>parse_quora_date\<close> stops at an offset \<open>k\<close> between 1
  and 7: the \<open>else\<close> branch of the loop is not taken, and \<open>tm\<close> is the day \<open>k\<close> days before
  the origin, the first one with the weekday asked for.
\<close>

lemma weekday_walk_finds:
  assumes "n \<in> set days_of_week"
  shows "\<exists>k. 1 \<le> k \<and> k \<le> 7
           \<and> resolve_tm origin n = Inr (gmtime (origin - 86400 * int k))
           \<and> tm_wday (gmtime (origin - 86400 * int k)) = int (index_of days_of_week n)
           \<and> (\<forall>j. 1 \<le> j \<and> j < k \<longrightarrow>
                 tm_wday (gmtime (origin - 86400 * int j)) \<noteq> int (index_of days_of_week n))"
proof -
  let ?d = "int (index_of days_of_week n)"
  let ?hit = "\<lambda>tm. tm_wday tm = ?d"
  from weekday_index [OF assms] have d: "0 \<le> ?d" "?d < 7" by simp_all
  from weekday_within_7 [OF d, of "origin div 86400"] obtain k0 :: nat
    where k0: "1 \<le> k0" "k0 \<le> 7" "(origin div 86400 - int k0 + 3) mod 7 = ?d" by blast
  then have "?hit (gmtime (origin - 86400 * int k0))" by (simp add: gmtime_wday)
  with k0 have "walk_back 7 ?hit origin 1 \<noteq> None"
    unfolding walk_back_None by blast
  then obtain tm where tm: "walk_back 7 ?hit origin 1 = Some tm" by blast
  from walk_back_Some [OF tm] obtain k where k: "1 \<le> k" "k \<le> 7"
    "tm = gmtime (origin - 86400 * int k)" "?hit tm"
    "\<forall>j. 1 \<le> j \<and> j < k \<longrightarrow> \<not> ?hit (gmtime (origin - 86400 * int j))" by blast
  from tm k(3) have "resolve_tm origin n = Inr (gmtime (origin - 86400 * int k))"
    by (simp add: weekday_branch [OF assms])
  with k show ?thesis by blast
qed


section \<open>The date resolver on concrete inputs\<close>

text \<open>
  The rendering names the month after the one of the date, and fails for a date in
  December.
\<close>

lemma render_tm_next_month:
  assumes "1 \<le> tm_mon tm" and "tm_mon tm \<le> 11"
  shows "render_tm tm = Inr (months_of_year ! nat (tm_mon tm) @ '' '' @ str_int (tm_mday tm)
                               @ '', '' @ str_int (tm_year tm))"
  using assms by (simp add: render_tm_def py_index_def months_of_year_def)

lemma render_tm_december: "tm_mon tm = 12 \<Longrightarrow> render_tm tm = Inl IndexError"
  by (simp add: render_tm_def py_index_def months_of_year_def)

text \<open>
  Claim C1. With the origin 2015-02-01T00:00:00Z the input \<open>3h ago\<close> should resolve to
  2015-01-31, rendered with the month abbreviation \<open>Jan\<close>. The date computed is
  2015-01-31 (\<open>tm_mon = 1\<close>), but the function returns \<open>Feb 31, 2015\<close>: the list of month
  names is indexed with \<open>tm_mon\<close>, which counts from 1.
\<close>

theorem parse_quora_date_3h_ago:
  "resolve_tm 1422748800 ''3h ago'' = Inr \<lparr>tm_year = 2015, tm_mon = 1, tm_mday = 31, tm_wday = 5\<rparr>
   \<and> parse_quora_date 1422748800 ''3h ago'' = Inr ''Feb 31, 2015''"
  by code_simp

text \<open>
  Claim C7. For a weekday name the walk finds the day within 7 steps
  (\<open>weekday_walk_finds\<close>), so the \<open>else\<close> branch of the loop is not reached. The date
  returned should be the most recent day before the origin with that weekday: with the
  origin on Sunday 2015-02-01 and the input \<open>Tue\<close> the walk stops at Tuesday 2015-01-27,
  and the function returns \<open>Feb 27, 2015\<close>, a Friday, through the same indexing of the
  month names.
\<close>

theorem parse_quora_date_Tue:
  "resolve_tm 1422748800 ''Tue'' = Inr \<lparr>tm_year = 2015, tm_mon = 1, tm_mday = 27, tm_wday = 1\<rparr>
   \<and> parse_quora_date 1422748800 ''Tue'' = Inr ''Feb 27, 2015''
   \<and> tm_wday (gmtime (days_from_civil 2015 2 27 * 86400)) = 4"
  by code_simp

section \<open>The per-file loop on concrete inputs\<close>

lemma files_warn [simp]: "files (warn w msg) = files w"
  by (simp add: warn_def)

lemma files_log_if_v [simp]: "files (log_if_v a w msg) = files w"
  by (simp add: log_if_v_def)

text \<open>
  A file in which the scan finds no answer and no post region, or no question region,
  ends the loop body with \<open>NameError\<close>.
\<close>

lemma convert_file_no_content_region:
  assumes "files w (input_dir a @ ''/'' @ filename) = Some page_html"
    and "answer_node (snd (scan_divs origin (parse e page_html))) = None"
    and "post_node (snd (scan_divs origin (parse e page_html))) = None"
  shows "convert_file a e assemble_page origin w filename = Inl (NameError ''url'')"
  using assms by (simp add: convert_file_def Let_def)

lemma convert_file_no_question_region:
  assumes "files w (input_dir a @ ''/'' @ filename) = Some page_html"
    and "question_node (snd (scan_divs origin (parse e page_html))) = None"
  shows "convert_file a e assemble_page origin w filename = Inl (NameError ''url'')"
  using assms by (simp add: convert_file_def Let_def)

text \<open>
  Claim C2. A file in which no \<open>div\<close> is an answer, post or question region should be
  skipped with a warning, the run going on to the next file and ending with exit status
  zero. The input directory here holds \<open>a.html\<close> and \<open>b.html\<close>, and \<open>a.html\<close> has no
  \<open>div\<close>: the run ends with \<open>NameError\<close> at the warning for \<open>a.html\<close>, whatever the
  page assembly would do, and \<open>b.html\<close> is never read.
\<close>

theorem run_aborts_on_missing_region:
  "run example_args example_env assemble_page example_world = Inl (NameError ''url'')"
proof -
  have names: "sort [''b.html'', ''a.html''] = [''a.html'', ''b.html'']"
    by code_simp
  have scan: "answer_node (snd (scan_divs origin example_page)) = None"
    "post_node (snd (scan_divs origin example_page)) = None" for origin
    by (simp_all add: scan_divs_def example_page_def no_regions_def)
  have "convert_file example_args example_env assemble_page origin w ''a.html''
          = Inl (NameError ''url'')"
    if "files w ''quora-answers/a.html'' = Some page_html" for origin w page_html
    using that scan
    by (intro convert_file_no_content_region [where page_html = page_html])
       (simp_all add: example_args_def example_env_def)
  then have "convert_all example_args example_env assemble_page origin w [''a.html'', ''b.html'']
          = Inl (NameError ''url'')"
    if "files w ''quora-answers/a.html'' = Some page_html" for origin w page_html
    using that by simp
  moreover have "run example_args example_env assemble_page example_world =
    (case convert_all example_args example_env assemble_page (origin_of example_args example_env)
       (warn example_world ''Found 2 answers'') [''a.html'', ''b.html''] of
         Inl x \<Rightarrow> Inl x | Inr w3 \<Rightarrow> Inr (warn w3 ''Done''))"
    by (simp add: run_def names example_env_def example_args_def endswith_def
          log_if_v_def Let_def str_nat.simps digit_char_def)
  moreover have "files (warn example_world ''Found 2 answers'') ''quora-answers/a.html''
                   = Some ''<html>a</html>''"
    by (simp add: example_world_def)
  ultimately show ?thesis by simp
qed

text \<open>
  Claim C6. For both footer kinds the text of the anchor that was read should be
  rewritten in place. For a post footer with two anchors the first anchor, whose text
  \<open>Posted 3h ago\<close> was read and matched, keeps its text, and the text of the second
  anchor is overwritten.
\<close>

theorem post_footer_rewrites_other_anchor:
  "scan_divs 1422748800 [post_footer] =
     ([Element ''div'' [(''class'', ''PostFooter'')]
         [Element ''a'' [] [Text ''Posted 3h ago''],
          Element ''a'' [] [Text ''Posted Feb 31, 2015'']]],
      no_regions\<lparr>date_node := Some [0]\<rparr>)"
  by code_simp

text \<open>The credibility footer reads and writes the anchor with index 0.\<close>

lemma credibility_footer_rewrites_same_anchor:
  "scan_divs 1422748800 [credibility_footer] =
     ([Element ''div'' [(''class'', ''CredibilityFacts'')]
         [Element ''a'' [] [Text ''Answered Feb 31, 2015''],
          Element ''a'' [] [Text ''Comment'']]],
      no_regions\<lparr>date_node := Some [0]\<rparr>)"
  by code_simp



section \<open>Frame properties of \<open>cleanup_tree\<close>\<close>

lemma size_kids_less:
  "size_list size kids < size_list size (Element tag attrs kids # rest)"
  "size_list size rest < size_list size (n # rest)"
  by simp_all

text \<open>The destination only grows at its end.\<close>

lemma cleanup_tree_appends:
  "cleanup_tree a e seen src dest w = Inr (src', dest', w') \<Longrightarrow> \<exists>new. dest' = dest @ new"
proof (induction "size_list size src" arbitrary: src seen dest w src' dest' w' rule: less_induct)
  case less
  show ?case
  proof (cases src)
    case Nil
    with less.prems show ?thesis by simp
  next
    case (Cons n rest)
    have IHrest: "\<exists>new. d' = d @ new"
      if "cleanup_tree a e sn rest d v = Inr (s', d', v')" for sn d v s' d' v'
      using less.hyps [of rest sn d v s' d' v'] that Cons by simp
    show ?thesis
    proof (cases n)
      case (Text d)
      with less.prems Cons show ?thesis by (auto dest!: IHrest)
    next
      case (Comment d)
      with less.prems Cons show ?thesis by simp
    next
      case (Element tag attrs kids)
      have IHkids: "\<exists>new. d' = d @ new"
        if "cleanup_tree a e sn kids d v = Inr (s', d', v')" for sn d v s' d' v'
        using less.hyps [of kids sn d v s' d' v'] that Cons Element by simp
      have IHtl: "\<exists>new. d' = d @ new"
        if "rest = skipped # rest'" "cleanup_tree a e sn rest' d v = Inr (s', d', v')"
        for skipped rest' sn d v s' d' v'
        using less.hyps [of rest' sn d v s' d' v'] that Cons by simp
      from less.prems show ?thesis
        unfolding Cons Element
        by (cases "rule_of tag attrs")
           (auto split: sum.splits prod.splits list.splits dest!: IHrest IHkids IHtl)
    qed
  qed
qed

text \<open>Without a title element nothing is unlinked from the source.\<close>

lemma cleanup_tree_keeps_source:
  "untitled_list src \<Longrightarrow> cleanup_tree a e seen src dest w = Inr (src', dest', w')
     \<Longrightarrow> src' = seen @ src"
proof (induction "size_list size src" arbitrary: src seen dest w src' dest' w' rule: less_induct)
  case less
  show ?case
  proof (cases src)
    case Nil
    with less.prems show ?thesis by simp
  next
    case (Cons n rest)
    with less.prems have ur: "untitled_list rest" by simp
    have IHrest: "s' = sn @ rest"
      if "cleanup_tree a e sn rest d v = Inr (s', d', v')" for sn d v s' d' v'
      using less.hyps [of rest sn d v s' d' v'] that Cons ur by simp
    show ?thesis
    proof (cases n)
      case (Text d)
      with less.prems Cons show ?thesis by (auto dest!: IHrest)
    next
      case (Comment d)
      with less.prems Cons show ?thesis by simp
    next
      case (Element tag attrs kids)
      with less.prems Cons have uk: "untitled_list kids" and nt: "rule_of tag attrs \<noteq> RTitle"
        by simp_all
      have IHkids: "s' = sn @ kids"
        if "cleanup_tree a e sn kids d v = Inr (s', d', v')" for sn d v s' d' v'
        using less.hyps [of kids sn d v s' d' v'] that Cons Element uk by simp
      from less.prems(2) nt show ?thesis
        unfolding Cons Element
        by (cases "rule_of tag attrs")
           (auto split: sum.splits prod.splits dest!: IHrest IHkids)
    qed
  qed
qed

section \<open>Trees of text and pass-through tags\<close>

lemma plain_rule:
  "plain (Element tag attrs kids) \<Longrightarrow>
     rule_of tag attrs = RVoid \<and> kids = [] \<or> rule_of tag attrs = RPass \<and> plain_list kids"
  by (auto simp: rule_of_def split: if_splits)

lemma plain_cleanup_tree:
  "plain_list src \<Longrightarrow>
     \<exists>out. cleanup_tree a e seen src dest w = Inr (seen @ src, dest @ out, w)
           \<and> map skeleton out = map skeleton src"
proof (induction "size_list size src" arbitrary: src seen dest rule: less_induct)
  case less
  show ?case
  proof (cases src)
    case Nil
    then show ?thesis by simp
  next
    case (Cons n rest)
    with less.prems have pn: "plain n" and pr: "plain_list rest" by simp_all
    have IHrest: "\<exists>out. cleanup_tree a e sn rest d w = Inr (sn @ rest, d @ out, w)
                    \<and> map skeleton out = map skeleton rest" for sn d
      using less.hyps [of rest sn d] pr Cons by simp
    show ?thesis
    proof (cases n)
      case (Text d)
      from IHrest [of "seen @ [Text d]" "dest @ [Text d]"] obtain out where
        "cleanup_tree a e (seen @ [Text d]) rest (dest @ [Text d]) w
           = Inr ((seen @ [Text d]) @ rest, (dest @ [Text d]) @ out, w)"
        "map skeleton out = map skeleton rest" by blast
      then show ?thesis unfolding Cons Text
        by (intro exI [of _ "Text d # out"]) simp
    next
      case (Comment d)
      with pn show ?thesis by simp
    next
      case (Element tag attrs kids)
      from plain_rule pn Element consider
          (void) "rule_of tag attrs = RVoid" "kids = []"
        | (pass) "rule_of tag attrs = RPass" "plain_list kids"
        by blast
      then show ?thesis
      proof cases
        case void
        from IHrest [of "seen @ [n]" "dest @ [Element tag attrs []]"] obtain out where
          "cleanup_tree a e (seen @ [n]) rest (dest @ [Element tag attrs []]) w
             = Inr ((seen @ [n]) @ rest, (dest @ [Element tag attrs []]) @ out, w)"
          "map skeleton out = map skeleton rest" by blast
        with void show ?thesis unfolding Cons Element
          by (intro exI [of _ "Element tag attrs [] # out"]) (simp add: shallow_clone_def)
      next
        case pass
        from less.hyps [of kids "[]" "[]"] pass(2) Cons Element obtain new_kids where
          kids: "cleanup_tree a e [] kids [] w = Inr (kids, new_kids, w)"
          "map skeleton new_kids = map skeleton kids" by auto
        from IHrest [of "seen @ [n]" "dest @ [Element tag [] new_kids]"] obtain out where
          "cleanup_tree a e (seen @ [n]) rest (dest @ [Element tag [] new_kids]) w
             = Inr ((seen @ [n]) @ rest, (dest @ [Element tag [] new_kids]) @ out, w)"
          "map skeleton out = map skeleton rest" by blast
        with pass(1) kids show ?thesis unfolding Cons Element
          by (intro exI [of _ "Element tag [] new_kids # out"]) simp
      qed
    qed
  qed
qed

section \<open>Which failures leave \<open>cleanup_tree\<close>\<close>

lemma fetched_warn [simp]: "fetched (warn w msg) = fetched w"
  by (simp add: warn_def)

lemma fetched_log_if_v [simp]: "fetched (log_if_v a w msg) = fetched w"
  by (simp add: log_if_v_def)




section \<open>The claims about \<open>cleanup_tree\<close>\<close>

text \<open>
  Claim C9. For every source subtree that holds only text nodes and the pass-through
  tags (\<open>b\<close>, \<open>i\<close>, \<open>u\<close>, \<open>h1\<close>, \<open>h2\<close>, \<open>ol\<close>, \<open>ul\<close>, \<open>li\<close>, \<open>blockquote\<close>, \<open>wbr\<close>, \<open>p\<close>, \<open>br\<close>,
  \<open>hr\<close>), whatever their class attributes, the rewrite returns, and what it appends to
  the destination has the tag names, the text and the child order of the source; the
  source and the world are as before.
\<close>

theorem passthrough_round_trip:
  assumes "plain_list src"
  shows "\<exists>out. cleanup_tree a e seen src dest w = Inr (seen @ src, dest @ out, w)
               \<and> map skeleton out = map skeleton src"
  using assms by (rule plain_cleanup_tree)

theorem passthrough_round_trip_witness:
  "plain_list plain_example
   \<and> (\<exists>out. cleanup_tree example_args example_env [] plain_example [] example_world
               = Inr ([] @ plain_example, [] @ out, example_world)
            \<and> map skeleton out = map skeleton plain_example)"
proof -
  have p: "plain_list plain_example"
    by (simp add: plain_example_def)
  from passthrough_round_trip [OF p, of example_args example_env "[]" "[]" example_world] p
  show ?thesis by blast
qed

text \<open>
  Claim C4, as the code has it. The rewrite only appends to the destination, and it
  leaves the source subtree as it was when no element of the source takes the title
  branch (a class attribute that contains \<open>question_text\<close> or \<open>board_item_title\<close>, on a
  tag that is neither void nor pass-through). The title branch moves the child itself
  under the new \<open>h1\<close>, which unlinks it from the source.
\<close>

theorem source_kept_without_title:
  assumes "untitled_list src"
    and "cleanup_tree a e seen src dest w = Inr (src', dest', w')"
  shows "src' = seen @ src \<and> (\<exists>new. dest' = dest @ new)"
  using assms cleanup_tree_keeps_source cleanup_tree_appends by blast

theorem source_kept_without_title_witness:
  "untitled_list link_example
   \<and> cleanup_tree example_args example_env [] link_example [] example_world
       = Inr (link_example,
              [Text ''by '', Element ''a'' [(''href'', ''http://quora.com/Jane-Doe'')] [Text ''Jane'']],
              example_world)
   \<and> link_example = [] @ link_example
   \<and> (\<exists>new. [Text ''by '', Element ''a'' [(''href'', ''http://quora.com/Jane-Doe'')] [Text ''Jane'']]
              = [] @ new)"
proof -
  have u: "untitled_list link_example"
    by (simp add: link_example_def rule_of_def getAttribute_def)
  have r: "cleanup_tree example_args example_env [] link_example [] example_world
       = Inr (link_example,
              [Text ''by '', Element ''a'' [(''href'', ''http://quora.com/Jane-Doe'')] [Text ''Jane'']],
              example_world)"
    by (simp add: link_example_def rule_of_def getAttribute_def link_href_def)
  from source_kept_without_title [OF u r] u r show ?thesis by blast
qed

text \<open>
  The claim as the spec states it fails: a child that takes the title branch is no
  longer a child of the source after the call.
\<close>

theorem title_child_leaves_source:
  "cleanup_tree example_args example_env [] [title_example] [] example_world
     = Inr ([], [Element ''h1'' [] [title_example]], example_world)"
  by (simp add: title_example_def rule_of_def getAttribute_def)






section \<open>Class tests\<close>

lemma startswith_append: "startswith (xs @ ys) xs"
  by (induction xs) simp_all

lemma contains_empty: "contains [] s"
  by (cases s) simp_all

lemma contains_prefix: "contains xs (xs @ ys)"
proof (cases xs)
  case Nil
  then show ?thesis by (simp add: contains_empty)
next
  case (Cons x xs')
  have "startswith ((x # xs') @ ys) (x # xs')" by (rule startswith_append)
  with Cons show ?thesis by simp
qed

lemma contains_append_left: "contains t ys \<Longrightarrow> contains t (xs @ ys)"
  by (induction xs) simp_all

lemma split_ws_tokens: "t \<in> set (split_ws cur s) \<Longrightarrow> contains t (cur @ s)"
proof (induction s arbitrary: cur)
  case Nil
  then show ?case
    using contains_prefix [of cur "[]"] by (simp split: if_splits)
next
  case (Cons c cs)
  show ?case
  proof (cases "is_space c")
    case False
    with Cons.prems have "t \<in> set (split_ws (cur @ [c]) cs)" by simp
    from Cons.IH [OF this] show ?thesis by simp
  next
    case True
    with Cons.prems have "t = cur \<or> t \<in> set (split_ws [] cs)"
      by (simp split: if_splits)
    then show ?thesis
    proof
      assume "t = cur"
      then show ?thesis using contains_prefix [of cur "c # cs"] by simp
    next
      assume "t \<in> set (split_ws [] cs)"
      from Cons.IH [OF this] have "contains t cs" by simp
      then have "contains t (c # cs)" by simp
      then show ?thesis by (rule contains_append_left)
    qed
  qed
qed

text \<open>A marker that is a token of the class attribute is also a substring of it.\<close>

lemma token_is_substring: "m \<in> set (split c) \<Longrightarrow> contains m c"
  using split_ws_tokens [of m "[]" c] by (simp add: split_def)

text \<open>
  Claim C5, as the code has it. On a tag that is neither void nor pass-through, each
  class-gated rule of \<open>cleanup_tree\<close> (title, inline code, footer or hidden, code-block
  table) is decided by whether its marker occurs as a substring of the class attribute;
  a class attribute that has the marker as one of its tokens matches as well.
\<close>

theorem class_rules_test_substrings:
  assumes "rule_of tag attrs \<noteq> RVoid" and "rule_of tag attrs \<noteq> RPass"
  shows "(rule_of tag attrs = RTitle \<longleftrightarrow>
            contains ''question_text'' (getAttribute attrs ''class'')
            \<or> contains ''board_item_title'' (getAttribute attrs ''class''))
       \<and> (rule_of tag attrs = RInlineCode \<longleftrightarrow>
            rule_of tag attrs \<noteq> RTitle \<and> getAttribute attrs ''data-embed'' = []
            \<and> contains ''inline_codeblock'' (getAttribute attrs ''class''))
       \<and> (rule_of tag attrs = RSkip \<longleftrightarrow>
            rule_of tag attrs \<noteq> RTitle \<and> getAttribute attrs ''data-embed'' = []
            \<and> \<not> contains ''inline_codeblock'' (getAttribute attrs ''class'')
            \<and> (contains ''ContentFooter'' (getAttribute attrs ''class'')
                 \<or> contains ''hidden'' (getAttribute attrs ''class'')))
       \<and> (rule_of tag attrs = RCodeBlock \<longleftrightarrow>
            rule_of tag attrs \<notin> {RTitle, REmbed, RInlineCode, RSkip, RUnwrap, RLink, RImg}
            \<and> contains ''codeblocktable'' (getAttribute attrs ''class''))
       \<and> (\<forall>m. m \<in> set (split (getAttribute attrs ''class''))
              \<longrightarrow> contains m (getAttribute attrs ''class''))"
proof -
  from assms have t: "tag \<notin> set [''br'', ''hr'']"
    "tag \<notin> set [''b'', ''i'', ''u'', ''h1'', ''h2'', ''ol'', ''ul'', ''li'',
                  ''blockquote'', ''wbr'', ''p'']"
    unfolding rule_of_def by (simp_all split: if_splits)
  have r: "rule_of tag attrs =
     (if contains ''question_text'' (getAttribute attrs ''class'') then RTitle
      else if contains ''board_item_title'' (getAttribute attrs ''class'') then RTitle
      else if getAttribute attrs ''data-embed'' \<noteq> [] then REmbed
      else if contains ''inline_codeblock'' (getAttribute attrs ''class'') then RInlineCode
      else if contains ''ContentFooter'' (getAttribute attrs ''class'')
              \<or> contains ''hidden'' (getAttribute attrs ''class'') then RSkip
      else if tag \<in> set [''span'', ''div''] then RUnwrap
      else if tag = ''a'' then RLink
      else if tag = ''img'' then RImg
      else if contains ''codeblocktable'' (getAttribute attrs ''class'') then RCodeBlock
      else RUnknown)"
    unfolding rule_of_def using t by (simp only: if_False)
  have 1: "rule_of tag attrs = RTitle \<longleftrightarrow>
            contains ''question_text'' (getAttribute attrs ''class'')
            \<or> contains ''board_item_title'' (getAttribute attrs ''class'')"
    unfolding r by simp
  have 2: "rule_of tag attrs = RInlineCode \<longleftrightarrow>
            rule_of tag attrs \<noteq> RTitle \<and> getAttribute attrs ''data-embed'' = []
            \<and> contains ''inline_codeblock'' (getAttribute attrs ''class'')"
    unfolding r by simp
  have 3: "rule_of tag attrs = RSkip \<longleftrightarrow>
            rule_of tag attrs \<noteq> RTitle \<and> getAttribute attrs ''data-embed'' = []
            \<and> \<not> contains ''inline_codeblock'' (getAttribute attrs ''class'')
            \<and> (contains ''ContentFooter'' (getAttribute attrs ''class'')
                 \<or> contains ''hidden'' (getAttribute attrs ''class''))"
    unfolding r by simp
  have 4: "rule_of tag attrs = RCodeBlock \<longleftrightarrow>
            rule_of tag attrs \<notin> {RTitle, REmbed, RInlineCode, RSkip, RUnwrap, RLink, RImg}
            \<and> contains ''codeblocktable'' (getAttribute attrs ''class'')"
    unfolding r by simp
  from 1 2 3 4 token_is_substring show ?thesis by blast
qed

theorem class_rules_test_substrings_witness:
  "rule_of ''span'' [(''class'', ''unhidden'')] \<noteq> RVoid
   \<and> rule_of ''span'' [(''class'', ''unhidden'')] \<noteq> RPass
   \<and> rule_of ''span'' [(''class'', ''unhidden'')] = RSkip
   \<and> contains ''hidden'' (getAttribute [(''class'', ''unhidden'')] ''class'')"
proof -
  have v: "rule_of ''span'' [(''class'', ''unhidden'')] \<noteq> RVoid"
    and p: "rule_of ''span'' [(''class'', ''unhidden'')] \<noteq> RPass"
    and s: "rule_of ''span'' [(''class'', ''unhidden'')] = RSkip"
    by (simp_all add: rule_of_def getAttribute_def)
  from class_rules_test_substrings [OF v p] s v p show ?thesis
    by (simp add: getAttribute_def)
qed

text \<open>
  The claim as the spec states it fails: \<open>hidden\<close> is no token of the class attribute
  \<open>unhidden\<close>, and yet the element takes the skip rule and its content is dropped.
\<close>

theorem substring_of_longer_token_matches:
  "''hidden'' \<notin> set (split ''unhidden'')
   \<and> rule_of ''span'' [(''class'', ''unhidden'')] = RSkip
   \<and> cleanup_tree example_args example_env []
        [Element ''span'' [(''class'', ''unhidden'')] [Text ''still here'']] [] example_world
       = Inr ([Element ''span'' [(''class'', ''unhidden'')] [Text ''still here'']], [],
              example_world)"
  by (simp add: split_def is_space_def rule_of_def getAttribute_def)

section \<open>Image localization\<close>











end
